theory Spec2Isabelle
  imports Main "HOL-Library.Word" "HOL-Library.Mapping" "HOL-Library.AList_Mapping"
begin

section \<open>The Go runtime as far as \<open>messages.go\<close> relies on it\<close>

text \<open>
  An \<open>error\<close> is the one error \<open>messages.go\<close> declares, an error a library call
  returned, or \<open>errors.Wrap(err, message)\<close>.

  A run of Go code either returns or stops the process. The process stops on a run-time
  panic (an index or a slice bound out of range; \<open>messages.go\<close> recovers from none) and
  on \<open>log.Fatalln(err)\<close>, which prints and calls \<open>os.Exit(1)\<close>. A function that may
  stop the process returns \<open>crash + 'a\<close>.
\<close>

datatype error = InvalidSignatureError | LibraryError string | Wrap error string

datatype crash = IndexOutOfRange | SliceBoundsOutOfRange | FatalExit error

text \<open>\<open>and_then m f\<close> runs \<open>f\<close> on what \<open>m\<close> returns, unless \<open>m\<close> stopped the process.\<close>

definition and_then :: "crash + 'a \<Rightarrow> ('a \<Rightarrow> crash + 'b) \<Rightarrow> crash + 'b" where
  "and_then m f = (case m of Inl c \<Rightarrow> Inl c | Inr x \<Rightarrow> f x)"

text \<open>
  A \<open>[]byte\<close> is a \<open>string\<close> (a list of 8-bit characters); the nil slice and the
  empty slice are both \<open>''''\<close>, which is how \<open>len\<close>, \<open>range\<close>, \<open>hex\<close>, \<open>hmac\<close> and \<open>json\<close> see them.
\<close>

type_synonym bytes = string

text \<open>\<open>make([]byte, n)\<close>: \<open>n\<close> zero bytes.\<close>

definition make_bytes :: "nat \<Rightarrow> bytes" where
  "make_bytes n = replicate n (CHR 0x00)"

text \<open>
  A slice of frames (\<open>[][]byte\<close>) is a window on a backing array: \<open>elems\<close> are the
  \<open>len\<close> elements the slice shows, \<open>spare\<close> the elements of the backing array behind
  them, up to the capacity. An index expression \<open>s[i]\<close> is checked against the length, a
  slice expression \<open>s[lo:hi]\<close> against the capacity.
\<close>

record 'e slice =
  elems :: "'e list"
  spare :: "'e list"

definition slice_len :: "'e slice \<Rightarrow> nat" where
  "slice_len s = length (elems s)"

definition slice_cap :: "'e slice \<Rightarrow> nat" where
  "slice_cap s = length (elems s) + length (spare s)"

definition slice_index :: "'e slice \<Rightarrow> nat \<Rightarrow> crash + 'e" where
  "slice_index s i = (if i < slice_len s then Inr (elems s ! i) else Inl IndexOutOfRange)"

definition slice_expr :: "'e slice \<Rightarrow> nat \<Rightarrow> nat \<Rightarrow> crash + 'e slice" where
  "slice_expr s lo hi =
     (if lo \<le> hi \<and> hi \<le> slice_cap s
      then Inr \<lparr>elems = take (hi - lo) (drop lo (elems s @ spare s)),
                spare = drop hi (elems s @ spare s)\<rparr>
      else Inl SliceBoundsOutOfRange)"

section \<open>The data of \<open>messages.go\<close>\<close>

record MsgHeader =
  MsgID :: string
  Username :: string
  Session :: string
  MsgType :: string

text \<open>
  \<open>Metadata\<close> is a \<open>map[string]interface{}\<close>: \<open>None\<close> is the nil map, \<open>Some m\<close> a
  map with the entries of the mapping \<open>m\<close>. \<open>Content\<close> is an
  \<open>interface{}\<close>: \<open>None\<close> is the nil interface, \<open>Some v\<close> holds a dynamic value \<open>v\<close> of
  the type \<open>'a\<close> of Go values.
\<close>

record 'a ComposedMsg =
  Header :: MsgHeader
  ParentHeader :: MsgHeader
  Metadata :: "(string, 'a) mapping option"
  Content :: "'a option"

definition zero_MsgHeader :: MsgHeader where
  "zero_MsgHeader = \<lparr>MsgID = '''', Username = '''', Session = '''', MsgType = ''''\<rparr>"

definition zero_ComposedMsg :: "'a ComposedMsg" where
  "zero_ComposedMsg =
     \<lparr>Header = zero_MsgHeader, ParentHeader = zero_MsgHeader, Metadata = None, Content = None\<rparr>"

definition delimiter :: bytes where
  "delimiter = ''<IDS|MSG>''"

section \<open>The packages \<open>messages.go\<close> imports\<close>

subsection \<open>\<open>encoding/hex\<close>\<close>

text \<open>
  The standard library's hexadecimal codec. \<open>Encode\<close> writes two lower-case digits per
  source byte into \<open>dst\<close> and panics when \<open>dst\<close> is too short. \<open>Decode\<close> writes one byte
  per pair of digits into \<open>dst\<close> and stops at the first byte that is no digit (of either
  case); what it decoded before stays in \<open>dst\<close>, the rest of \<open>dst\<close> is untouched. The
  second component says whether no error was returned. The model follows the current
  release of the standard library.
\<close>

definition hextable :: string where
  "hextable = ''0123456789abcdef''"

definition hex_EncodedLen :: "nat \<Rightarrow> nat" where
  "hex_EncodedLen n = n * 2"

definition hex_DecodedLen :: "nat \<Rightarrow> nat" where
  "hex_DecodedLen x = x div 2"

definition hex_digits :: "bytes \<Rightarrow> bytes" where
  "hex_digits src =
     concat (map (\<lambda>v. [hextable ! (of_char v div 16), hextable ! (of_char v mod 16)]) src)"

definition hex_Encode :: "bytes \<Rightarrow> bytes \<Rightarrow> crash + bytes" where
  "hex_Encode dst src =
     (if length dst < 2 * length src then Inl IndexOutOfRange
      else Inr (hex_digits src @ drop (2 * length src) dst))"

definition fromHexChar :: "char \<Rightarrow> nat option" where
  "fromHexChar c =
     (let n = (of_char c :: nat) in
      if 48 \<le> n \<and> n \<le> 57 then Some (n - 48)
      else if 97 \<le> n \<and> n \<le> 102 then Some (n - 87)
      else if 65 \<le> n \<and> n \<le> 70 then Some (n - 55)
      else None)"

fun hex_pairs :: "bytes \<Rightarrow> bytes \<times> bool" where
  "hex_pairs (p # q # rest) =
     (case fromHexChar p of
        None \<Rightarrow> ([], False)
      | Some a \<Rightarrow>
          (case fromHexChar q of
             None \<Rightarrow> ([], False)
           | Some b \<Rightarrow> (let (out, ok) = hex_pairs rest in (char_of (a * 16 + b) # out, ok))))"
| "hex_pairs [p] = ([], False)"
| "hex_pairs [] = ([], True)"

definition hex_Decode :: "bytes \<Rightarrow> bytes \<Rightarrow> bytes \<times> bool" where
  "hex_Decode dst src =
     (let (out, ok) = hex_pairs src in (out @ drop (length out) dst, ok))"

subsection \<open>\<open>crypto/hmac\<close>, \<open>crypto/sha256\<close>, \<open>encoding/json\<close>, \<open>gouuid\<close>\<close>

text \<open>
  These packages are parameters of the model. HMAC-SHA256 maps a key and the bytes written
  to a 256-bit digest. \<open>json.Marshal\<close> returns the bytes or an error; \<open>json.Unmarshal\<close>
  takes the bytes and the value its pointer argument holds and returns the value it
  leaves there and the error it returns. Each is given at the three static types
  \<open>messages.go\<close> uses it at. \<open>uuid_String\<close> renders a UUID of type \<open>'u\<close>.
\<close>

record ('a, 'u) lib =
  hmac_sha256 :: "bytes \<Rightarrow> bytes \<Rightarrow> 256 word"
  json_Marshal_MsgHeader :: "MsgHeader \<Rightarrow> error + bytes"
  json_Marshal_map :: "(string, 'a) mapping option \<Rightarrow> error + bytes"
  json_Marshal_any :: "'a option \<Rightarrow> error + bytes"
  json_Unmarshal_MsgHeader :: "bytes \<Rightarrow> MsgHeader \<Rightarrow> MsgHeader \<times> error option"
  json_Unmarshal_map :: "bytes \<Rightarrow> (string, 'a) mapping option \<Rightarrow> (string, 'a) mapping option \<times> error option"
  json_Unmarshal_any :: "bytes \<Rightarrow> 'a option \<Rightarrow> 'a option \<times> error option"
  uuid_String :: "'u \<Rightarrow> string"

text \<open>
  A running MAC is the bytes written to it so far. \<open>Sum(nil)\<close> is the digest as 32
  bytes, most significant first; \<open>Size()\<close> is 32. \<open>hmac.Equal\<close> compares two MACs
  without leaking timing; as a function it is equality of the byte sequences.
\<close>

definition mac_Write :: "bytes \<Rightarrow> bytes \<Rightarrow> bytes" where
  "mac_Write written p = written @ p"

definition mac_Size :: nat where
  "mac_Size = 32"

definition digest_bytes :: "256 word \<Rightarrow> bytes" where
  "digest_bytes w = map (\<lambda>k. char_of (unat (drop_bit (8 * (31 - k)) w))) [0..<32]"

definition mac_Sum :: "('a, 'u) lib \<Rightarrow> bytes \<Rightarrow> bytes \<Rightarrow> bytes" where
  "mac_Sum L key written = digest_bytes (hmac_sha256 L key written)"

definition hmac_Equal :: "bytes \<Rightarrow> bytes \<Rightarrow> bool" where
  "hmac_Equal mac1 mac2 = (mac1 = mac2)"

section \<open>\<open>WireMsgToComposedMsg\<close>\<close>

text \<open>
  The scan \<open>for string(msgparts[i]) != "<IDS|MSG>" { i++ }\<close>. The loop has no bound of its
  own: it ends at the delimiter or at the index check of \<open>msgparts[i]\<close>.
\<close>

function scan_delimiter :: "bytes slice \<Rightarrow> nat \<Rightarrow> crash + nat" where
  "scan_delimiter msgparts i =
     (if slice_len msgparts \<le> i then Inl IndexOutOfRange
      else if elems msgparts ! i \<noteq> delimiter then scan_delimiter msgparts (i + 1)
      else Inr i)"
  by pat_completeness auto
termination
  by (relation "measure (\<lambda>(msgparts, i). slice_len msgparts - i)") auto

declare scan_delimiter.simps [simp del]

text \<open>
  The result is the triple the Go function returns: the message, the identities (\<open>None\<close>
  is nil) and the error (\<open>None\<close> is nil). The errors of \<open>hex.Decode\<close> and of the four
  calls of \<open>json.Unmarshal\<close> are dropped, as the source drops them.
\<close>

definition WireMsgToComposedMsg ::
    "('a, 'u) lib \<Rightarrow> bytes slice \<Rightarrow> bytes \<Rightarrow>
       crash + ('a ComposedMsg \<times> bytes slice option \<times> error option)" where
  "WireMsgToComposedMsg L msgparts signkey =
     and_then (scan_delimiter msgparts 0) (\<lambda>i.
     and_then (slice_expr msgparts 0 i) (\<lambda>identities.
     let msg = zero_ComposedMsg in
     and_then
       (if length signkey \<noteq> 0 then
          and_then (slice_expr msgparts (i + 2) (i + 6)) (\<lambda>region.
          let written = foldl mac_Write [] (elems region) in
          and_then (slice_index msgparts (i + 1)) (\<lambda>sigframe.
          let signature = fst (hex_Decode (make_bytes (hex_DecodedLen (length sigframe))) sigframe) in
          Inr (hmac_Equal (mac_Sum L signkey written) signature)))
        else Inr True) (\<lambda>valid.
     if \<not> valid then Inr (msg, None, Some InvalidSignatureError) else
     and_then (slice_index msgparts (i + 2)) (\<lambda>frame.
     let msg = msg\<lparr>Header := fst (json_Unmarshal_MsgHeader L frame (Header msg))\<rparr> in
     and_then (slice_index msgparts (i + 3)) (\<lambda>frame.
     let msg = msg\<lparr>ParentHeader := fst (json_Unmarshal_MsgHeader L frame (ParentHeader msg))\<rparr> in
     and_then (slice_index msgparts (i + 4)) (\<lambda>frame.
     let msg = msg\<lparr>Metadata := fst (json_Unmarshal_map L frame (Metadata msg))\<rparr> in
     and_then (slice_index msgparts (i + 5)) (\<lambda>frame.
     let msg = msg\<lparr>Content := fst (json_Unmarshal_any L frame (Content msg))\<rparr> in
     Inr (msg, Some identities, None))))))))"

section \<open>\<open>ToWireMsg\<close>\<close>

text \<open>
  The receiver \<open>msg\<close> is passed by value: the method works on its own copy, which the
  assignment \<open>msg.Metadata = make(map[string]interface{})\<close> changes. \<open>ToWireMsg_body\<close>
  returns that copy as the method leaves it, then the two results of the method.
\<close>

definition ToWireMsg_body ::
    "('a, 'u) lib \<Rightarrow> 'a ComposedMsg \<Rightarrow> bytes \<Rightarrow>
       crash + ('a ComposedMsg \<times> bytes list \<times> error option)" where
  "ToWireMsg_body L msg signkey =
     (let msgparts = replicate 5 [] in
      case json_Marshal_MsgHeader L (Header msg) of
        Inl err \<Rightarrow> Inr (msg, msgparts, Some (Wrap err ''Could not marshal message header''))
      | Inr header \<Rightarrow>
     (let msgparts = msgparts[1 := header] in
      case json_Marshal_MsgHeader L (ParentHeader msg) of
        Inl err \<Rightarrow> Inr (msg, msgparts, Some (Wrap err ''Could not marshal parent header''))
      | Inr parentHeader \<Rightarrow>
     (let msgparts = msgparts[2 := parentHeader];
          msg = (if Metadata msg = None then msg\<lparr>Metadata := Some Mapping.empty\<rparr> else msg) in
      case json_Marshal_map L (Metadata msg) of
        Inl err \<Rightarrow> Inr (msg, msgparts, Some (Wrap err ''Could not marshal metadata''))
      | Inr metadata \<Rightarrow>
     (let msgparts = msgparts[3 := metadata] in
      case json_Marshal_any L (Content msg) of
        Inl err \<Rightarrow> Inr (msg, msgparts, Some (Wrap err ''Could not marshal content''))
      | Inr content \<Rightarrow>
     (let msgparts = msgparts[4 := content] in
      if length signkey \<noteq> 0 then
        (let written = foldl mac_Write [] (drop 1 msgparts);
             msgparts = msgparts[0 := make_bytes (hex_EncodedLen mac_Size)] in
         and_then (hex_Encode (msgparts ! 0) (mac_Sum L signkey written)) (\<lambda>dst.
         Inr (msg, msgparts[0 := dst], None)))
      else Inr (msg, msgparts, None))))))"

definition ToWireMsg ::
    "('a, 'u) lib \<Rightarrow> 'a ComposedMsg \<Rightarrow> bytes \<Rightarrow> crash + (bytes list \<times> error option)" where
  "ToWireMsg L msg signkey = and_then (ToWireMsg_body L msg signkey) (\<lambda>(copy, results). Inr results)"


section \<open>\<open>SendResponse\<close>\<close>

text \<open>
  Modelled from the spec: the struct \<open>SocketGroup\<close> is declared in another file of the
  repository; \<open>messages.go\<close> reads its field \<open>Key\<close>, the signing key of the receipt
  ("signing key: byte sequence, possibly empty").
\<close>

record SocketGroup =
  Key :: bytes

record 'a MsgReceipt =
  Msg :: "'a ComposedMsg"
  Identities :: "bytes slice"
  Sockets :: SocketGroup

text \<open>
  What \<open>SendResponse\<close> does to the world is the sequence of calls it makes on the socket
  and on the loggers, in order; the flag of a send is whether \<open>zmq.SNDMORE\<close> is set. The
  values the socket calls return are dropped, as the source drops them.
\<close>

datatype 'a event =
    SendMultipart "bytes list" bool
  | Send bytes bool
  | Println string string
  | Printf string "'a option"

definition SendResponse ::
    "('a, 'u) lib \<Rightarrow> 'a MsgReceipt \<Rightarrow> 'a ComposedMsg \<Rightarrow> 'a event list \<times> crash option" where
  "SendResponse L receipt msg =
     (let trace = [SendMultipart (elems (Identities receipt)) True];
          trace = trace @ [Send delimiter True] in
      case ToWireMsg L msg (Key (Sockets receipt)) of
        Inl c \<Rightarrow> (trace, Some c)
      | Inr (msgParts, Some err) \<Rightarrow> (trace, Some (FatalExit err))
      | Inr (msgParts, None) \<Rightarrow>
         (let trace = trace @ [SendMultipart msgParts False];
              trace = trace @ [Println ''<--'' (MsgType (Header msg))];
              trace = trace @ [Printf ''%+v\<newline>'' (Content msg)] in
          (trace, None)))"

section \<open>\<open>NewMsg\<close>\<close>

text \<open>
  \<open>newV4\<close> is what the call \<open>uuid.NewV4()\<close> of this run returns: an error, or a new
  UUID. The named result \<open>msg\<close> starts as the zero value.
\<close>

definition NewMsg ::
    "('a, 'u) lib \<Rightarrow> string \<Rightarrow> 'a ComposedMsg \<Rightarrow> error + 'u \<Rightarrow> crash + 'a ComposedMsg" where
  "NewMsg L msgType parent newV4 =
     (let msg = zero_ComposedMsg;
          msg = msg\<lparr>ParentHeader := Header parent\<rparr>;
          msg = msg\<lparr>Header := (Header msg)\<lparr>Session := Session (Header parent)\<rparr>\<rparr>;
          msg = msg\<lparr>Header := (Header msg)\<lparr>Username := Username (Header parent)\<rparr>\<rparr>;
          msg = msg\<lparr>Header := (Header msg)\<lparr>MsgType := msgType\<rparr>\<rparr> in
      case newV4 of
        Inl err \<Rightarrow> Inl (FatalExit (Wrap err ''Could not generate UUID''))
      | Inr u \<Rightarrow> Inr (msg\<lparr>Header := (Header msg)\<lparr>MsgID := uuid_String L u\<rparr>\<rparr>))"

section \<open>Notions for the statements\<close>

text \<open>
  The message the decoder builds from the four frames after the signature: each field is
  what \<open>json.Unmarshal\<close> leaves in the zero value, whatever error it returns.
\<close>

definition decoded_fields ::
    "('a, 'u) lib \<Rightarrow> bytes \<Rightarrow> bytes \<Rightarrow> bytes \<Rightarrow> bytes \<Rightarrow> 'a ComposedMsg" where
  "decoded_fields L header parent metadata content =
     \<lparr>Header = fst (json_Unmarshal_MsgHeader L header zero_MsgHeader),
      ParentHeader = fst (json_Unmarshal_MsgHeader L parent zero_MsgHeader),
      Metadata = fst (json_Unmarshal_map L metadata None),
      Content = fst (json_Unmarshal_any L content None)\<rparr>"

text \<open>
  What lines 103 to 110 of \<open>ToWireMsg\<close> leave in \<open>msgparts[0]\<close>: nothing under the empty
  key, else the HMAC of the four frames as 64 lower-case hexadecimal digits.
\<close>

definition signature_frame :: "('a, 'u) lib \<Rightarrow> bytes \<Rightarrow> bytes list \<Rightarrow> bytes" where
  "signature_frame L signkey frames =
     (if signkey = [] then [] else hex_digits (mac_Sum L signkey (concat frames)))"


section \<open>An example library\<close>

text \<open>
  The theorems below hold for every library \<open>L\<close>. To run the code on concrete frames, the
  examples use \<open>example_lib\<close>. Its Go values are strings and channels. Its JSON covers the
  headers and strings made of plain characters (printable ASCII other than the quote, the
  backslash and \<open><\<close>, \<open>>\<close>, \<open>&\<close>, which \<open>encoding/json\<close> writes as they are), the empty
  map, the nil map and the nil interface. On any other value its \<open>Marshal\<close> returns an
  error (on a channel \<open>encoding/json\<close> does so too), and on any other bytes its
  \<open>Unmarshal\<close> returns an error and leaves the target as it is. Its digest is not
  HMAC-SHA256, which no theorem unfolds, but a checksum of the key and the bytes. A UUID
  is its 16 bytes, rendered in groups of 8, 4, 4, 4 and 12 digits.
\<close>

datatype goval = GoString string | GoChan

definition plain :: "char \<Rightarrow> bool" where
  "plain c = (32 \<le> (of_char c :: nat) \<and> (of_char c :: nat) < 127 \<and>
              c \<notin> {CHR 0x22, CHR 0x5C, CHR ''<'', CHR ''>'', CHR ''&''})"

definition unsupported :: error where
  "unsupported = LibraryError ''json: unsupported value''"

definition syntax_error :: error where
  "syntax_error = LibraryError ''json: invalid input''"

definition example_Marshal_MsgHeader :: "MsgHeader \<Rightarrow> error + bytes" where
  \<open>example_Marshal_MsgHeader h =
     (if list_all plain (MsgID h @ Username h @ Session h @ MsgType h)
      then Inr (''{"msg_id":"'' @ MsgID h @ ''","username":"'' @ Username h @
                ''","session":"'' @ Session h @ ''","msg_type":"'' @ MsgType h @ ''"}'')
      else Inl unsupported)\<close>

fun strip_prefix :: "string \<Rightarrow> string \<Rightarrow> string option" where
  "strip_prefix [] s = Some s"
| "strip_prefix (c # cs) [] = None"
| "strip_prefix (c # cs) (d # ds) = (if c = d then strip_prefix cs ds else None)"

definition parse_MsgHeader :: "bytes \<Rightarrow> MsgHeader option" where
  \<open>parse_MsgHeader b =
     Option.bind (strip_prefix ''{"msg_id":"'' b) (\<lambda>r.
     let v1 = takeWhile plain r in
     Option.bind (strip_prefix ''","username":"'' (dropWhile plain r)) (\<lambda>r.
     let v2 = takeWhile plain r in
     Option.bind (strip_prefix ''","session":"'' (dropWhile plain r)) (\<lambda>r.
     let v3 = takeWhile plain r in
     Option.bind (strip_prefix ''","msg_type":"'' (dropWhile plain r)) (\<lambda>r.
     let v4 = takeWhile plain r in
     if dropWhile plain r = ''"}''
     then Some \<lparr>MsgID = v1, Username = v2, Session = v3, MsgType = v4\<rparr>
     else None))))\<close>

definition example_Unmarshal_MsgHeader :: "bytes \<Rightarrow> MsgHeader \<Rightarrow> MsgHeader \<times> error option" where
  "example_Unmarshal_MsgHeader b old =
     (case parse_MsgHeader b of None \<Rightarrow> (old, Some syntax_error) | Some h \<Rightarrow> (h, None))"

definition example_Marshal_map :: "(string, goval) mapping option \<Rightarrow> error + bytes" where
  "example_Marshal_map m =
     (case m of
        None \<Rightarrow> Inr ''null''
      | Some f \<Rightarrow> if Mapping.is_empty f then Inr ''{}'' else Inl unsupported)"

definition example_Unmarshal_map ::
    "bytes \<Rightarrow> (string, goval) mapping option \<Rightarrow> (string, goval) mapping option \<times> error option" where
  "example_Unmarshal_map b old =
     (if b = ''null'' then (None, None)
      else if b = ''{}'' then (Some (case old of None \<Rightarrow> Mapping.empty | Some f \<Rightarrow> f), None)
      else (old, Some syntax_error))"

definition example_Marshal_any :: "goval option \<Rightarrow> error + bytes" where
  "example_Marshal_any v =
     (case v of
        None \<Rightarrow> Inr ''null''
      | Some (GoString s) \<Rightarrow> if list_all plain s then Inr (CHR 0x22 # s @ [CHR 0x22]) else Inl unsupported
      | Some GoChan \<Rightarrow> Inl unsupported)"

definition example_Unmarshal_any :: "bytes \<Rightarrow> goval option \<Rightarrow> goval option \<times> error option" where
  "example_Unmarshal_any b old =
     (if b = ''null'' then (None, None)
      else if 2 \<le> length b \<and> hd b = CHR 0x22 \<and> last b = CHR 0x22 \<and> list_all plain (butlast (tl b))
      then (Some (GoString (butlast (tl b))), None)
      else (old, Some syntax_error))"

definition example_digest :: "bytes \<Rightarrow> bytes \<Rightarrow> 256 word" where
  "example_digest key written = of_nat (sum_list (map of_char (key @ CHR 0x00 # written)))"

definition example_uuid_String :: "bytes \<Rightarrow> string" where
  "example_uuid_String u =
     hex_digits (take 4 u) @ ''-'' @ hex_digits (take 2 (drop 4 u)) @ ''-'' @
     hex_digits (take 2 (drop 6 u)) @ ''-'' @ hex_digits (take 2 (drop 8 u)) @ ''-'' @
     hex_digits (drop 10 u)"

definition example_lib :: "(goval, bytes) lib" where
  "example_lib =
     \<lparr>hmac_sha256 = example_digest,
      json_Marshal_MsgHeader = example_Marshal_MsgHeader,
      json_Marshal_map = example_Marshal_map,
      json_Marshal_any = example_Marshal_any,
      json_Unmarshal_MsgHeader = example_Unmarshal_MsgHeader,
      json_Unmarshal_map = example_Unmarshal_map,
      json_Unmarshal_any = example_Unmarshal_any,
      uuid_String = example_uuid_String\<rparr>"

text \<open>The frames of the examples: a header, and the header of a root message.\<close>

definition example_header :: MsgHeader where
  "example_header = \<lparr>MsgID = ''a'', Username = ''u'', Session = ''s'', MsgType = ''t''\<rparr>"

definition example_header_frame :: bytes where
  \<open>example_header_frame = ''{"msg_id":"a","username":"u","session":"s","msg_type":"t"}''\<close>

definition example_parent_frame :: bytes where
  \<open>example_parent_frame = ''{"msg_id":"","username":"","session":"","msg_type":""}''\<close>

text \<open>
  A message with nil metadata and nil content, as \<open>NewMsg\<close> leaves them, the receipt of a
  request that came with two identities, and the 16 bytes of a UUID.
\<close>

definition example_msg :: "goval ComposedMsg" where
  "example_msg =
     \<lparr>Header = example_header, ParentHeader = zero_MsgHeader, Metadata = None, Content = None\<rparr>"

definition example_receipt :: "goval MsgReceipt" where
  "example_receipt =
     \<lparr>Msg = example_msg,
      Identities = \<lparr>elems = [''router-1'', ''router-2''], spare = []\<rparr>,
      Sockets = \<lparr>Key = ''s3cr3t''\<rparr>\<rparr>"

definition example_uuid :: bytes where
  "example_uuid = [CHR 0x6b, CHR 0xa7, CHR 0xb8, CHR 0x10, CHR 0x9d, CHR 0xad, CHR 0x41, CHR 0xd1,
                   CHR 0x80, CHR 0xb4, CHR 0x00, CHR 0xc0, CHR 0x4f, CHR 0xd4, CHR 0x30, CHR 0xc8]"

section \<open>What the decoder computes\<close>

lemma nth_in_drop: "i < length xs \<Longrightarrow> xs ! i \<in> set (drop i xs)"
  by (metis Cons_nth_drop_Suc list.set_intros(1))

lemma scan_from:
  "i \<le> length ids \<Longrightarrow> delimiter \<notin> set (drop i ids) \<Longrightarrow>
   scan_delimiter \<lparr>elems = ids @ delimiter # rest, spare = sp\<rparr> i = Inr (length ids)"
proof (induction "length ids - i" arbitrary: i)
  case 0
  then have "i = length ids" by simp
  then show ?case by (subst scan_delimiter.simps) (simp add: slice_len_def)
next
  case (Suc n)
  then have lt: "i < length ids" by simp
  with Suc.prems have ne: "ids ! i \<noteq> delimiter"
    using nth_in_drop [OF lt] by auto
  have "set (drop (i + 1) ids) \<subseteq> set (drop i ids)"
    by (simp add: set_drop_subset_set_drop)
  with Suc.prems have "delimiter \<notin> set (drop (i + 1) ids)" by auto
  with Suc lt
  have "scan_delimiter \<lparr>elems = ids @ delimiter # rest, spare = sp\<rparr> (i + 1) = Inr (length ids)"
    by simp
  with lt ne show ?case by (subst scan_delimiter.simps) (simp add: slice_len_def nth_append)
qed

lemma scan_found:
  "delimiter \<notin> set ids \<Longrightarrow>
   scan_delimiter \<lparr>elems = ids @ delimiter # rest, spare = sp\<rparr> 0 = Inr (length ids)"
  by (rule scan_from) simp_all

lemma scan_missing:
  "delimiter \<notin> set (drop i (elems msgparts)) \<Longrightarrow>
   scan_delimiter msgparts i = Inl IndexOutOfRange"
proof (induction "slice_len msgparts - i" arbitrary: i)
  case 0
  then show ?case by (subst scan_delimiter.simps) simp
next
  case (Suc n)
  then have lt: "i < length (elems msgparts)" by (simp add: slice_len_def)
  with Suc.prems have ne: "elems msgparts ! i \<noteq> delimiter"
    using nth_in_drop [OF lt] by auto
  have "set (drop (i + 1) (elems msgparts)) \<subseteq> set (drop i (elems msgparts))"
    by (simp add: set_drop_subset_set_drop)
  with Suc.prems have "delimiter \<notin> set (drop (i + 1) (elems msgparts))" by auto
  with Suc have "scan_delimiter msgparts (i + 1) = Inl IndexOutOfRange"
    by simp
  with lt ne show ?case by (subst scan_delimiter.simps) (simp add: slice_len_def)
qed

text \<open>
  The decoder on a sequence that has the delimiter and five frames or more behind it.
\<close>

lemma decode_framed:
  assumes "delimiter \<notin> set ids"
  shows "WireMsgToComposedMsg L
           \<lparr>elems = ids @ delimiter # sig # header # parent # metadata # content # extra,
            spare = sp\<rparr> signkey =
         (if signkey \<noteq> [] \<and>
             \<not> hmac_Equal (mac_Sum L signkey (header @ parent @ metadata @ content))
                 (fst (hex_Decode (make_bytes (hex_DecodedLen (length sig))) sig))
          then Inr (zero_ComposedMsg, None, Some InvalidSignatureError)
          else Inr (decoded_fields L header parent metadata content,
                    Some \<lparr>elems = ids,
                          spare = delimiter # sig # header # parent # metadata # content # extra @ sp\<rparr>,
                    None))"
  unfolding WireMsgToComposedMsg_def scan_found [OF assms]
  by (simp add: and_then_def slice_expr_def slice_index_def slice_len_def slice_cap_def
      nth_append mac_Write_def zero_ComposedMsg_def decoded_fields_def Let_def)

text \<open>What a scan that finds the delimiter returns: the index of its first occurrence.\<close>

lemma scan_result:
  "scan_delimiter msgparts i = Inr j \<Longrightarrow>
   i \<le> j \<and> j < length (elems msgparts) \<and> elems msgparts ! j = delimiter \<and>
   (\<forall>k. i \<le> k \<and> k < j \<longrightarrow> elems msgparts ! k \<noteq> delimiter)"
proof (induction msgparts i rule: scan_delimiter.induct)
  case (1 msgparts i)
  show ?case
  proof (cases "slice_len msgparts \<le> i")
    case True
    with "1.prems" show ?thesis by (subst (asm) scan_delimiter.simps) simp
  next
    case False
    show ?thesis
    proof (cases "elems msgparts ! i = delimiter")
      case True
      with False "1.prems" have "j = i" by (subst (asm) scan_delimiter.simps) simp
      with True False show ?thesis by (auto simp add: slice_len_def)
    next
      case ne: False
      with False "1.prems" have "scan_delimiter msgparts (i + 1) = Inr j"
        by (subst (asm) scan_delimiter.simps) simp
      with "1.IH" False ne
      have ih: "i + 1 \<le> j \<and> j < length (elems msgparts) \<and> elems msgparts ! j = delimiter \<and>
        (\<forall>k. i + 1 \<le> k \<and> k < j \<longrightarrow> elems msgparts ! k \<noteq> delimiter)"
        by simp
      have "\<And>k. i \<le> k \<Longrightarrow> k < j \<Longrightarrow> elems msgparts ! k \<noteq> delimiter"
      proof -
        fix k assume "i \<le> k" "k < j"
        then show "elems msgparts ! k \<noteq> delimiter"
          using ih ne by (cases "k = i") auto
      qed
      with ih show ?thesis by auto
    qed
  qed
qed

lemma scan_splits:
  assumes "scan_delimiter msgparts 0 = Inr j"
  shows "elems msgparts = take j (elems msgparts) @ delimiter # drop (Suc j) (elems msgparts) \<and>
         delimiter \<notin> set (take j (elems msgparts))"
proof -
  from scan_result [OF assms]
  have j: "j < length (elems msgparts)" "elems msgparts ! j = delimiter"
    and before: "\<forall>k. k < j \<longrightarrow> elems msgparts ! k \<noteq> delimiter"
    by auto
  have "elems msgparts = take j (elems msgparts) @ delimiter # drop (Suc j) (elems msgparts)"
    using j by (metis id_take_nth_drop)
  moreover have "delimiter \<notin> set (take j (elems msgparts))"
    using before j by (auto simp add: in_set_conv_nth)
  ultimately show ?thesis by simp
qed

section \<open>The example library on the example frames\<close>

lemma plain_simps:
  "plain (CHR 0x22) = False" "plain CHR ''a''" "plain CHR ''u''" "plain CHR ''s''" "plain CHR ''t''"
  by (simp_all add: plain_def)

lemma example_header_frame_parses:
  "json_Unmarshal_MsgHeader example_lib example_header_frame old = (example_header, None)"
  by (simp add: example_lib_def example_Unmarshal_MsgHeader_def parse_MsgHeader_def
      example_header_frame_def example_header_def plain_simps)

lemma example_parent_frame_parses:
  "json_Unmarshal_MsgHeader example_lib example_parent_frame old = (zero_MsgHeader, None)"
  by (simp add: example_lib_def example_Unmarshal_MsgHeader_def parse_MsgHeader_def
      example_parent_frame_def zero_MsgHeader_def plain_simps)

lemma example_garbage_header:
  "json_Unmarshal_MsgHeader example_lib ''garbage'' old = (old, Some syntax_error)"
  by (simp add: example_lib_def example_Unmarshal_MsgHeader_def parse_MsgHeader_def)

lemma example_map_frames:
  "json_Unmarshal_map example_lib ''{}'' None = (Some Mapping.empty, None)"
  "json_Unmarshal_any example_lib ''null'' old = (None, None)"
  by (simp_all add: example_lib_def example_Unmarshal_map_def example_Unmarshal_any_def)

lemma example_decoded_fields:
  "decoded_fields example_lib example_header_frame example_parent_frame ''{}'' ''null'' =
     \<lparr>Header = example_header, ParentHeader = zero_MsgHeader,
      Metadata = Some Mapping.empty, Content = None\<rparr>"
  by (simp add: decoded_fields_def example_header_frame_parses example_parent_frame_parses
      example_map_frames)

lemma example_ids: "delimiter \<notin> set [''router-1'', ''router-2'']"
  by (simp add: delimiter_def)

lemma length_mac_Sum: "length (mac_Sum L key written) = 32"
  by (simp add: mac_Sum_def digest_bytes_def)

section \<open>The hexadecimal codec and the signature frame\<close>

lemma fromHexChar_hextable_all: "\<forall>k \<in> set [0..<16]. fromHexChar (hextable ! k) = Some k"
  by (simp add: upt_rec hextable_def fromHexChar_def)

lemma fromHexChar_hextable: "k < 16 \<Longrightarrow> fromHexChar (hextable ! k) = Some k"
  using fromHexChar_hextable_all by simp

lemma length_hex_digits: "length (hex_digits src) = 2 * length src"
  by (induction src) (simp_all add: hex_digits_def)

lemma hex_digits_Cons:
  "hex_digits (v # src)
   = hextable ! (of_char v div 16) # hextable ! (of_char v mod 16) # hex_digits src"
  by (simp add: hex_digits_def)

lemma char_of_nibbles: "char_of ((of_char v :: nat) div 16 * 16 + of_char v mod 16) = v"
  by simp

text \<open>Decoding the digits of \<open>src\<close> gives \<open>src\<close> back, with no error.\<close>

lemma hex_pairs_digits: "hex_pairs (hex_digits src) = (src, True)"
proof (induction src)
  case Nil
  then show ?case by (simp add: hex_digits_def)
next
  case (Cons v src)
  have hi: "(of_char v :: nat) div 16 < 16"
    by (rule less_mult_imp_div_less) simp
  have lo: "(of_char v :: nat) mod 16 < 16" by simp
  show ?case
    by (simp only: hex_digits_Cons hex_pairs.simps fromHexChar_hextable [OF hi]
        fromHexChar_hextable [OF lo] Cons.IH option.case prod.case Let_def char_of_nibbles)
qed

lemma hex_Decode_digits:
  "fst (hex_Decode (make_bytes (hex_DecodedLen (length (hex_digits src)))) (hex_digits src)) = src"
  by (simp add: hex_Decode_def hex_pairs_digits length_hex_digits hex_DecodedLen_def
      make_bytes_def)

text \<open>The buffer \<open>ToWireMsg\<close> makes for the signature has the size \<open>hex.Encode\<close> needs.\<close>

lemma hex_Encode_mac:
  "hex_Encode (make_bytes (hex_EncodedLen mac_Size)) (mac_Sum L key written)
     = Inr (hex_digits (mac_Sum L key written))"
  by (simp add: hex_Encode_def make_bytes_def hex_EncodedLen_def mac_Size_def length_mac_Sum)


section \<open>What the encoder computes\<close>

text \<open>
  \<open>ToWireMsg\<close> by the first call of \<open>json.Marshal\<close> that fails: the frames filled so far
  and the wrapped error, or the five frames and a nil error.
\<close>

lemma ToWireMsg_body_cases:
  "ToWireMsg_body L m signkey =
    (case json_Marshal_MsgHeader L (Header m) of
       Inl err \<Rightarrow> Inr (m, [[], [], [], [], []], Some (Wrap err ''Could not marshal message header''))
     | Inr header \<Rightarrow>
    (case json_Marshal_MsgHeader L (ParentHeader m) of
       Inl err \<Rightarrow> Inr (m, [[], header, [], [], []], Some (Wrap err ''Could not marshal parent header''))
     | Inr parent \<Rightarrow>
    (case json_Marshal_map L (if Metadata m = None then Some Mapping.empty else Metadata m) of
       Inl err \<Rightarrow> Inr (m\<lparr>Metadata := if Metadata m = None then Some Mapping.empty else Metadata m\<rparr>,
                      [[], header, parent, [], []], Some (Wrap err ''Could not marshal metadata''))
     | Inr metadata \<Rightarrow>
    (case json_Marshal_any L (Content m) of
       Inl err \<Rightarrow> Inr (m\<lparr>Metadata := if Metadata m = None then Some Mapping.empty else Metadata m\<rparr>,
                      [[], header, parent, metadata, []], Some (Wrap err ''Could not marshal content''))
     | Inr content \<Rightarrow>
         Inr (m\<lparr>Metadata := if Metadata m = None then Some Mapping.empty else Metadata m\<rparr>,
              [signature_frame L signkey [header, parent, metadata, content],
               header, parent, metadata, content], None)))))"
proof (cases "Metadata m")
  case None
  then show ?thesis
    by (simp add: ToWireMsg_body_def Let_def numeral_eq_Suc hex_Encode_mac and_then_def
        signature_frame_def mac_Write_def split: sum.splits)
next
  case (Some f)
  then show ?thesis
    by (simp add: ToWireMsg_body_def Let_def numeral_eq_Suc hex_Encode_mac and_then_def
        signature_frame_def mac_Write_def split: sum.splits)
qed

text \<open>
  \<open>ToWireMsg\<close> never stops the process: the buffer it makes for the signature has the
  length \<open>hex.Encode\<close> writes. It returns five frames, and a nil error or an error that
  wraps the error of one of the four calls of \<open>json.Marshal\<close>.
\<close>

lemma ToWireMsg_returns:
  "\<exists>msgparts err.
     ToWireMsg L msg signkey = Inr (msgparts, err) \<and> length msgparts = 5 \<and>
     (err = None \<or> (\<exists>cause text. err = Some (Wrap cause text)))"
  by (simp add: ToWireMsg_def ToWireMsg_body_cases and_then_def split: sum.splits)


section \<open>The example library on the example message\<close>

lemma example_msg_marshals:
  "json_Marshal_MsgHeader example_lib (Header example_msg) = Inr example_header_frame"
  "json_Marshal_MsgHeader example_lib (ParentHeader example_msg) = Inr example_parent_frame"
  "json_Marshal_map example_lib (Some Mapping.empty) = Inr ''{}''"
  "json_Marshal_any example_lib (Content example_msg) = Inr ''null''"
  by (simp_all add: example_msg_def example_lib_def example_Marshal_MsgHeader_def
      example_Marshal_map_def example_Marshal_any_def example_header_def zero_MsgHeader_def
      example_header_frame_def example_parent_frame_def plain_simps)

lemma example_msg_nil_metadata: "Metadata example_msg = None"
  by (simp add: example_msg_def)

lemma example_msg_encodes:
  "ToWireMsg example_lib example_msg signkey
   = Inr ([signature_frame example_lib signkey
             [example_header_frame, example_parent_frame, ''{}'', ''null''],
           example_header_frame, example_parent_frame, ''{}'', ''null''], None)"
  by (simp add: ToWireMsg_def ToWireMsg_body_cases and_then_def example_msg_marshals
      example_msg_nil_metadata)



section \<open>The scan for the delimiter\<close>

text \<open>
  Claim C1. The claim asks that a sequence with no delimiter frame is answered with a
  \<open>MalformedFrames\<close> error and never with a crash. The scan of the source has no bound of
  its own: on every sequence with no delimiter frame, whatever the key, it walks to the
  end of the sequence, where the index check of \<open>msgparts[i]\<close> stops the process with a
  run-time panic.
\<close>

theorem scan_without_delimiter_panics:
  "delimiter \<notin> set (elems msgparts) \<Longrightarrow>
   WireMsgToComposedMsg L msgparts signkey = Inl IndexOutOfRange"
  by (simp add: WireMsgToComposedMsg_def and_then_def scan_missing)

theorem scan_without_delimiter_panics_example:
  "WireMsgToComposedMsg example_lib \<lparr>elems = [''id'', ''{}'', ''{}''], spare = []\<rparr> ''s3cr3t''
     = Inl IndexOutOfRange"
  using scan_without_delimiter_panics
    [of "\<lparr>elems = [''id'', ''{}'', ''{}''], spare = []\<rparr>" example_lib "''s3cr3t''"]
  by (simp add: delimiter_def)

section \<open>The frames behind the delimiter\<close>

text \<open>
  Claim C4. The claim asks for a \<open>MalformedFrames\<close> error when fewer than five frames
  follow the delimiter. The source never compares the number of frames with the indices
  \<open>i+1\<close> to \<open>i+5\<close> it reads. With the empty key, every sequence with a delimiter and
  fewer than five frames behind it stops the process at an index check.
\<close>

theorem short_frame_set_panics:
  assumes "delimiter \<notin> set ids" and "length rest < 5"
  shows "WireMsgToComposedMsg L \<lparr>elems = ids @ delimiter # rest, spare = sp\<rparr> []
         = Inl IndexOutOfRange"
  unfolding WireMsgToComposedMsg_def scan_found [OF assms(1)]
  using assms(2)
  by (simp add: and_then_def slice_expr_def slice_index_def slice_len_def slice_cap_def Let_def)

theorem short_frame_set_panics_example:
  "WireMsgToComposedMsg example_lib
     \<lparr>elems = [''router-1'', ''router-2'', delimiter, '''', example_header_frame,
               example_parent_frame, ''{}''],
      spare = []\<rparr> []
   = Inl IndexOutOfRange"
  using short_frame_set_panics [OF example_ids,
      of "['''', example_header_frame, example_parent_frame, ''{}'']" example_lib "[]"]
  by simp

section \<open>The signature\<close>



text \<open>
  Frames changed after signing: when the HMAC of the changed frames differs from the HMAC
  of the frames that were signed, the signature \<open>ToWireMsg\<close> wrote for the latter is
  rejected.
\<close>

lemma tampered_frames_are_rejected:
  assumes "delimiter \<notin> set ids" and "signkey \<noteq> []"
    and "mac_Sum L signkey (header' @ parent' @ metadata' @ content')
           \<noteq> mac_Sum L signkey (header @ parent @ metadata @ content)"
  shows "WireMsgToComposedMsg L
           \<lparr>elems = ids @ delimiter # signature_frame L signkey [header, parent, metadata, content]
                      # header' # parent' # metadata' # content' # extra,
            spare = sp\<rparr> signkey
         = Inr (zero_ComposedMsg, None, Some InvalidSignatureError)"
proof -
  have "fst (hex_Decode
          (make_bytes (hex_DecodedLen
             (length (signature_frame L signkey [header, parent, metadata, content]))))
          (signature_frame L signkey [header, parent, metadata, content]))
        = mac_Sum L signkey (header @ parent @ metadata @ content)"
    using assms(2) by (simp add: signature_frame_def hex_Decode_digits)
  with assms show ?thesis
    by (simp add: decode_framed hmac_Equal_def)
qed

text \<open>
  Claim C7. With the empty key the decoder does not look at the signature frame: on every
  sequence with a delimiter and five frames behind it, it returns a message and a nil
  error, and what it returns does not depend on the signature frame.
\<close>

theorem empty_key_skips_verification:
  assumes "delimiter \<notin> set ids"
  shows "WireMsgToComposedMsg L
           \<lparr>elems = ids @ delimiter # sig # header # parent # metadata # content # extra,
            spare = sp\<rparr> []
         = Inr (decoded_fields L header parent metadata content,
                Some \<lparr>elems = ids,
                      spare = delimiter # sig # header # parent # metadata # content # extra @ sp\<rparr>,
                None)"
  using assms by (simp add: decode_framed)

theorem empty_key_skips_verification_witness:
  "WireMsgToComposedMsg example_lib
     \<lparr>elems = [''router-1'', ''router-2'', delimiter, ''no hex, odd length'',
               example_header_frame, example_parent_frame, ''{}'', ''null''],
      spare = []\<rparr> []
   = Inr (\<lparr>Header = example_header, ParentHeader = zero_MsgHeader,
           Metadata = Some Mapping.empty, Content = None\<rparr>,
          Some \<lparr>elems = [''router-1'', ''router-2''],
                spare = [delimiter, ''no hex, odd length'', example_header_frame,
                         example_parent_frame, ''{}'', ''null'']\<rparr>,
          None)"
  using empty_key_skips_verification [OF example_ids, of example_lib "''no hex, odd length''"
      example_header_frame example_parent_frame "''{}''" "''null''" "[]" "[]"]
  by (simp add: example_decoded_fields)

text \<open>
  On any sequence at all, well-formed or not, the decoder under the empty key never
  returns an error: it returns a message or it panics.
\<close>

lemma empty_key_never_rejects:
  "WireMsgToComposedMsg L msgparts [] = Inr (msg, identities, err) \<Longrightarrow> err = None"
  by (auto simp add: WireMsgToComposedMsg_def and_then_def Let_def split: sum.splits)

section \<open>The fields\<close>

text \<open>
  Claim C5. The claim asks that a field that fails to deserialize is reported as a
  \<open>DecodeError\<close> and that no partial message is returned. The source drops the error of
  each of the four calls of \<open>json.Unmarshal\<close>: once the signature is accepted or skipped,
  the decoder returns a nil error and the message with whatever the four calls left in
  its fields, whether they failed or not.
\<close>

theorem unmarshal_errors_are_dropped:
  assumes "delimiter \<notin> set ids"
    and "signkey = [] \<or>
         mac_Sum L signkey (header @ parent @ metadata @ content)
           = fst (hex_Decode (make_bytes (hex_DecodedLen (length sig))) sig)"
  shows "WireMsgToComposedMsg L
           \<lparr>elems = ids @ delimiter # sig # header # parent # metadata # content # extra,
            spare = sp\<rparr> signkey
         = Inr (\<lparr>Header = fst (json_Unmarshal_MsgHeader L header zero_MsgHeader),
                 ParentHeader = fst (json_Unmarshal_MsgHeader L parent zero_MsgHeader),
                 Metadata = fst (json_Unmarshal_map L metadata None),
                 Content = fst (json_Unmarshal_any L content None)\<rparr>,
                Some \<lparr>elems = ids,
                      spare = delimiter # sig # header # parent # metadata # content # extra @ sp\<rparr>,
                None)"
  using assms by (auto simp add: decode_framed hmac_Equal_def decoded_fields_def)

theorem unmarshal_errors_are_dropped_example:
  "snd (json_Unmarshal_MsgHeader example_lib ''garbage'' zero_MsgHeader) = Some syntax_error \<and>
   WireMsgToComposedMsg example_lib
     \<lparr>elems = [''router-1'', ''router-2'', delimiter, '''', ''garbage'',
               example_parent_frame, ''{}'', ''null''],
      spare = []\<rparr> []
   = Inr (\<lparr>Header = zero_MsgHeader, ParentHeader = zero_MsgHeader,
           Metadata = Some Mapping.empty, Content = None\<rparr>,
          Some \<lparr>elems = [''router-1'', ''router-2''],
                spare = [delimiter, '''', ''garbage'', example_parent_frame, ''{}'', ''null'']\<rparr>,
          None)"
  using unmarshal_errors_are_dropped [OF example_ids, of "[]" example_lib "''garbage''"
      example_parent_frame "''{}''" "''null''" "''''" "[]" "[]"]
  by (simp add: example_garbage_header example_parent_frame_parses example_map_frames)

section \<open>The identities\<close>

text \<open>
  Claim C8. On every sequence that has, before its first delimiter, the frames \<open>ids\<close>
  (none, one or many) and behind it five frames or more, a decoder that accepts or skips
  the signature returns as identities exactly \<open>ids\<close>, in their order: the slice
  \<open>msgparts[:i]\<close>, which shows \<open>ids\<close> and keeps the delimiter and all frames behind it in
  its capacity only.
\<close>

theorem identities_are_returned_verbatim:
  assumes "delimiter \<notin> set ids"
    and "signkey = [] \<or>
         mac_Sum L signkey (header @ parent @ metadata @ content)
           = fst (hex_Decode (make_bytes (hex_DecodedLen (length sig))) sig)"
  shows "map_sum id (\<lambda>(msg, identities, err). (map_option elems identities, err))
           (WireMsgToComposedMsg L
              \<lparr>elems = ids @ delimiter # sig # header # parent # metadata # content # extra,
               spare = sp\<rparr> signkey)
         = Inr (Some ids, None)"
  using assms by (auto simp add: decode_framed hmac_Equal_def)

theorem identities_are_returned_verbatim_witness:
  "map_sum id (\<lambda>(msg, identities, err). (map_option elems identities, err))
     (WireMsgToComposedMsg example_lib
        \<lparr>elems = [''router-1'', ''router-2'', delimiter, '''', example_header_frame,
                  example_parent_frame, ''{}'', ''null''],
         spare = []\<rparr> [])
   = Inr (Some [''router-1'', ''router-2''], None)"
  using identities_are_returned_verbatim [OF example_ids, of "[]" example_lib
      example_header_frame example_parent_frame "''{}''" "''null''" "''''" "[]" "[]"]
  by simp

section \<open>Encoding, then decoding\<close>




section \<open>The receiver of \<open>ToWireMsg\<close>\<close>



section \<open>Errors that stop the process\<close>

text \<open>
  Claim C6. The claim says that no error stops the process and that \<open>SendResponse\<close> and
  \<open>NewMsg\<close> return their failures to the caller. Neither function has an error result.
  Amended: \<open>ToWireMsg\<close> always returns to its caller, with a nil error or the wrapped
  error of the call of \<open>json.Marshal\<close> that failed; \<open>SendResponse\<close> ends in
  \<open>log.Fatalln\<close> of that error exactly when it is not nil, having sent the identities
  and the delimiter and nothing else, and returns otherwise; \<open>NewMsg\<close> ends in
  \<open>log.Fatalln\<close> when \<open>uuid.NewV4\<close> fails, and returns a message otherwise.
\<close>

theorem failures_end_in_log_Fatalln:
  "(\<exists>msgparts err.
      ToWireMsg L msg (Key (Sockets receipt)) = Inr (msgparts, err) \<and>
      (err = None \<or> (\<exists>cause text. err = Some (Wrap cause text))) \<and>
      snd (SendResponse L receipt msg) = map_option FatalExit err \<and>
      (err \<noteq> None \<longrightarrow>
         fst (SendResponse L receipt msg)
           = [SendMultipart (elems (Identities receipt)) True, Send delimiter True])) \<and>
   NewMsg L msgType parent (Inl failure)
     = Inl (FatalExit (Wrap failure ''Could not generate UUID'')) \<and>
   (\<exists>reply. NewMsg L msgType parent (Inr u) = Inr reply)"
proof -
  from ToWireMsg_returns [of L msg "Key (Sockets receipt)"]
  obtain msgparts err where
    enc: "ToWireMsg L msg (Key (Sockets receipt)) = Inr (msgparts, err)"
    and wrapped: "err = None \<or> (\<exists>cause text. err = Some (Wrap cause text))"
    by blast
  from enc have "snd (SendResponse L receipt msg) = map_option FatalExit err"
    and "err \<noteq> None \<longrightarrow>
         fst (SendResponse L receipt msg)
           = [SendMultipart (elems (Identities receipt)) True, Send delimiter True]"
    by (auto simp add: SendResponse_def Let_def split: option.splits)
  with enc wrapped show ?thesis
    by (simp add: NewMsg_def Let_def)
qed

theorem failures_end_in_log_Fatalln_witness:
  "snd (SendResponse example_lib example_receipt example_msg) = None"
  using failures_end_in_log_Fatalln [of example_lib example_msg example_receipt "''t''"
      example_msg "LibraryError ''x''" example_uuid]
  by (auto simp add: example_msg_encodes)

text \<open>
  The claim as stated fails on a reply whose content is a channel, which \<open>json.Marshal\<close>
  refuses, and on a run in which \<open>uuid.NewV4\<close> fails: both stop the process.
\<close>

theorem encode_failure_stops_the_process:
  "snd (SendResponse example_lib example_receipt (example_msg\<lparr>Content := Some GoChan\<rparr>))
     = Some (FatalExit (Wrap unsupported ''Could not marshal content'')) \<and>
   NewMsg example_lib ''execute_reply'' example_msg (Inl (LibraryError ''no randomness''))
     = Inl (FatalExit (Wrap (LibraryError ''no randomness'') ''Could not generate UUID''))"
  by (simp add: SendResponse_def NewMsg_def ToWireMsg_def ToWireMsg_body_cases and_then_def
      example_receipt_def example_msg_def example_lib_def
      example_Marshal_MsgHeader_def example_Marshal_map_def example_Marshal_any_def
      example_header_def zero_MsgHeader_def plain_simps)

section \<open>The header of a reply\<close>



text \<open>
  The identifier of a reply is the text of its own UUID and of nothing else: two calls
  whose UUIDs differ in text return different identifiers, whatever their types and
  parents, and a reply carries the identifier of its parent exactly when the UUID made
  for it has that text.
\<close>

lemma NewMsg_identifiers_differ:
  assumes "NewMsg L msgType parent (Inr u) = Inr reply"
    and "NewMsg L msgType' parent' (Inr u') = Inr reply'"
    and "uuid_String L u \<noteq> uuid_String L u'"
  shows "MsgID (Header reply) \<noteq> MsgID (Header reply')"
  using assms by (auto simp add: NewMsg_def zero_ComposedMsg_def zero_MsgHeader_def)

lemma NewMsg_identifier_and_parent:
  assumes "NewMsg L msgType parent (Inr u) = Inr reply"
  shows "(MsgID (Header reply) = MsgID (Header parent))
         = (uuid_String L u = MsgID (Header parent))"
  using assms by (auto simp add: NewMsg_def zero_ComposedMsg_def zero_MsgHeader_def)

section \<open>Further properties of the decoder, the encoder and the dispatcher\<close>

text \<open>The decoder on the example frames, with no key.\<close>

lemma example_decodes:
  "WireMsgToComposedMsg example_lib
     \<lparr>elems = [''router-1'', ''router-2'', delimiter, '''', example_header_frame,
               example_parent_frame, ''{}'', ''null''],
      spare = []\<rparr> []
   = Inr (\<lparr>Header = example_header, ParentHeader = zero_MsgHeader,
           Metadata = Some Mapping.empty, Content = None\<rparr>,
          Some \<lparr>elems = [''router-1'', ''router-2''],
                spare = [delimiter, '''', example_header_frame, example_parent_frame,
                         ''{}'', ''null'']\<rparr>,
          None)"
  using decode_framed [OF example_ids, of example_lib "''''" example_header_frame
      example_parent_frame "''{}''" "''null''" "[]" "[]" "[]"]
  by (simp add: example_decoded_fields)

text \<open>
  Whenever the decoder returns identities, on any sequence and under any key, they are
  exactly the frames before the first delimiter, five frames or more follow the delimiter,
  and the error is nil.
\<close>

theorem returned_identities_precede_the_delimiter:
  assumes "WireMsgToComposedMsg L msgparts signkey = Inr (msg, Some identities, err)"
  shows "\<exists>rest. elems msgparts = elems identities @ delimiter # rest \<and>
                delimiter \<notin> set (elems identities) \<and> 5 \<le> length rest \<and> err = None"
proof -
  from assms obtain j where scan: "scan_delimiter msgparts 0 = Inr j"
    by (auto simp add: WireMsgToComposedMsg_def and_then_def split: sum.splits)
  from scan_result [OF scan] have j: "j < length (elems msgparts)" by simp
  from assms scan j
  have ids: "elems identities = take j (elems msgparts)" and e: "err = None"
    and len: "j + 5 < length (elems msgparts)"
    by (auto simp add: WireMsgToComposedMsg_def and_then_def slice_expr_def slice_cap_def
        slice_index_def slice_len_def Let_def split: sum.splits if_splits)
  from scan_splits [OF scan] ids len e show ?thesis
    by (intro exI [of _ "drop (Suc j) (elems msgparts)"]) auto
qed

theorem returned_identities_precede_the_delimiter_witness:
  "WireMsgToComposedMsg example_lib
     \<lparr>elems = [''router-1'', ''router-2'', delimiter, '''', example_header_frame,
               example_parent_frame, ''{}'', ''null''],
      spare = []\<rparr> []
   = Inr (\<lparr>Header = example_header, ParentHeader = zero_MsgHeader,
           Metadata = Some Mapping.empty, Content = None\<rparr>,
          Some \<lparr>elems = [''router-1'', ''router-2''],
                spare = [delimiter, '''', example_header_frame, example_parent_frame,
                         ''{}'', ''null'']\<rparr>,
          None) \<and>
   (\<exists>rest. [''router-1'', ''router-2'', delimiter, '''', example_header_frame,
             example_parent_frame, ''{}'', ''null'']
            = [''router-1'', ''router-2''] @ delimiter # rest \<and>
           delimiter \<notin> set [''router-1'', ''router-2''] \<and> 5 \<le> length rest)"
  using returned_identities_precede_the_delimiter [OF example_decodes] example_decodes
  by simp

text \<open>
  With five frames or more behind the delimiter, the message, the identities and the
  error the decoder returns depend neither on the frames past the fifth nor on what the
  backing array holds beyond the slice.
\<close>

theorem extra_frames_are_ignored:
  assumes "delimiter \<notin> set ids"
  shows "map_sum id (\<lambda>(msg, identities, err). (msg, map_option elems identities, err))
           (WireMsgToComposedMsg L
              \<lparr>elems = ids @ delimiter # sig # header # parent # metadata # content # extra,
               spare = sp\<rparr> signkey)
         = map_sum id (\<lambda>(msg, identities, err). (msg, map_option elems identities, err))
           (WireMsgToComposedMsg L
              \<lparr>elems = ids @ delimiter # sig # header # parent # metadata # content # [],
               spare = []\<rparr> signkey)"
  by (simp add: decode_framed [OF assms])

theorem extra_frames_are_ignored_witness:
  "map_sum id (\<lambda>(msg, identities, err). (msg, map_option elems identities, err))
     (WireMsgToComposedMsg example_lib
        \<lparr>elems = [''router-1'', ''router-2'', delimiter, '''', example_header_frame,
                  example_parent_frame, ''{}'', ''null'', ''one more'', ''and another''],
         spare = [''stale'']\<rparr> [])
   = Inr (\<lparr>Header = example_header, ParentHeader = zero_MsgHeader,
           Metadata = Some Mapping.empty, Content = None\<rparr>,
          Some [''router-1'', ''router-2''], None)"
  using extra_frames_are_ignored [OF example_ids, of example_lib "''''" example_header_frame
      example_parent_frame "''{}''" "''null''" "[''one more'', ''and another'']" "[''stale'']" "[]"]
    example_decodes
  by simp

text \<open>
  Under any key, a sequence with a delimiter and fewer than five frames behind it ends
  in an index panic, in a slice-bounds panic or in the signature error; it never yields
  a message.
\<close>

theorem short_frame_set_never_decodes:
  assumes "delimiter \<notin> set ids" and "length rest < 5"
  shows "WireMsgToComposedMsg L \<lparr>elems = ids @ delimiter # rest, spare = sp\<rparr> signkey
         \<in> {Inl IndexOutOfRange, Inl SliceBoundsOutOfRange,
            Inr (zero_ComposedMsg, None, Some InvalidSignatureError)}"
  unfolding WireMsgToComposedMsg_def scan_found [OF assms(1)]
  using assms(2)
  by (simp add: and_then_def slice_expr_def slice_index_def slice_len_def slice_cap_def Let_def)

theorem short_frame_set_never_decodes_witness:
  "WireMsgToComposedMsg example_lib
     \<lparr>elems = [''router-1'', ''router-2'', delimiter, '''', example_header_frame],
      spare = []\<rparr> ''s3cr3t''
   = Inl SliceBoundsOutOfRange"
proof -
  have "WireMsgToComposedMsg example_lib
     \<lparr>elems = [''router-1'', ''router-2''] @ delimiter # ['''', example_header_frame],
      spare = []\<rparr> ''s3cr3t''
   \<noteq> Inl IndexOutOfRange"
    unfolding WireMsgToComposedMsg_def scan_found [OF example_ids]
    by (simp add: and_then_def slice_expr_def slice_cap_def)
  moreover have "WireMsgToComposedMsg example_lib
     \<lparr>elems = [''router-1'', ''router-2''] @ delimiter # ['''', example_header_frame],
      spare = []\<rparr> ''s3cr3t''
   \<noteq> Inr (zero_ComposedMsg, None, Some InvalidSignatureError)"
    unfolding WireMsgToComposedMsg_def scan_found [OF example_ids]
    by (simp add: and_then_def slice_expr_def slice_cap_def)
  ultimately show ?thesis
    using short_frame_set_never_decodes [OF example_ids,
        of "['''', example_header_frame]" example_lib "[]" "''s3cr3t''"]
    by simp
qed

text \<open>
  When the encoder returns no error, \<open>SendResponse\<close> sends the identities of the
  receipt, unchanged and with \<open>SNDMORE\<close>, then the delimiter with \<open>SNDMORE\<close>, then the
  five frames of \<open>ToWireMsg\<close> under the key of the receipt, and logs the type and the
  content of the message.
\<close>

theorem SendResponse_sends_identities_delimiter_frames:
  assumes "ToWireMsg L msg (Key (Sockets receipt)) = Inr (msgParts, None)"
  shows "SendResponse L receipt msg
         = ([SendMultipart (elems (Identities receipt)) True, Send delimiter True,
             SendMultipart msgParts False, Println ''<--'' (MsgType (Header msg)),
             Printf ''%+v\<newline>'' (Content msg)], None)"
  using assms by (simp add: SendResponse_def)

theorem SendResponse_sends_identities_delimiter_frames_witness:
  "SendResponse example_lib example_receipt example_msg
   = ([SendMultipart [''router-1'', ''router-2''] True, Send delimiter True,
       SendMultipart
         [signature_frame example_lib ''s3cr3t''
            [example_header_frame, example_parent_frame, ''{}'', ''null''],
          example_header_frame, example_parent_frame, ''{}'', ''null''] False,
       Println ''<--'' ''t'', Printf ''%+v\<newline>'' None], None)"
  using SendResponse_sends_identities_delimiter_frames
    [of example_lib example_msg example_receipt, OF example_msg_encodes [of "Key (Sockets example_receipt)"]]
  by (simp add: example_receipt_def example_msg_def example_header_def)

end
